theory Spec2Isabelle
  imports
    Complex_Main
    "HOL-Library.Sublist"
    "HOL-Library.FSet"
    "HOL-Library.Char_ord"
    "HOL-Library.List_Lexorder"
begin

section \<open>CardioMap GIS helpers: name reconciler, nested path extractor, schema analyzer\<close>

text \<open>
  A Python \<open>str\<close> is modelled as \<open>string\<close>. The literals the scripts search for
  (\<open>" Province"\<close>, \<open>" County"\<close>, \<open>" "\<close>, \<open>"."\<close>) are ASCII, so matching them on the
  UTF-8 bytes of a text finds exactly the occurrences that matching on code points finds.
\<close>

subsection \<open>\<open>public/check_names.py\<close>\<close>

text \<open>
  \<open>str.replace(old, new)\<close>: scan from the left, replace each occurrence of \<open>old\<close>
  and continue behind it (occurrences do not overlap). For the empty \<open>old\<close> Python puts
  \<open>new\<close> before every character and at the end.
\<close>

function replace :: "string \<Rightarrow> string \<Rightarrow> string \<Rightarrow> string" where
  "replace old new [] = (if old = [] then new else [])"
| "replace old new (c # cs) =
     (if old = [] then new @ c # replace old new cs
      else if prefix old (c # cs) then new @ replace old new (drop (length old) (c # cs))
      else c # replace old new cs)"
  by pat_completeness auto
termination
  by (relation "measure (\<lambda>(old, new, s). length s)") auto

text \<open>
  \<^verbatim>\<open>def normalize(name):
    return name.replace(" Province", "").replace(" County", "").replace(" ", "")\<close>
\<close>

definition normalize_name :: "string \<Rightarrow> string" where
  "normalize_name name = replace '' '' [] (replace '' County'' [] (replace '' Province'' [] name))"

text \<open>
  The characters for which Python's \<open>str.isspace\<close> holds, among the ASCII ones:
  tab, line feed, vertical tab, form feed, carriage return, the four separators
  \<open>0x1C\<close> to \<open>0x1F\<close>, and the space. This follows the words of the specification
  ("all remaining whitespace characters"), not the code.
\<close>

definition spec_whitespace :: "char \<Rightarrow> bool" where
  "spec_whitespace c \<longleftrightarrow>
     c \<in> {CHR 0x09, CHR 0x0A, CHR 0x0B, CHR 0x0C, CHR 0x0D,
          CHR 0x1C, CHR 0x1D, CHR 0x1E, CHR 0x1F, CHR '' ''}"

text \<open>
  Lines 31 to 41: the two name sets are Python sets of strings; each of the three groups
  is printed in the order of \<open>sorted(...)\<close>.
\<close>

definition geojson_not_in_csv :: "string fset \<Rightarrow> string fset \<Rightarrow> string list" where
  "geojson_not_in_csv geojson_names csv_names = sorted_list_of_fset (geojson_names |-| csv_names)"

definition csv_not_in_geojson :: "string fset \<Rightarrow> string fset \<Rightarrow> string list" where
  "csv_not_in_geojson geojson_names csv_names = sorted_list_of_fset (csv_names |-| geojson_names)"

definition present_in_both :: "string fset \<Rightarrow> string fset \<Rightarrow> string list" where
  "present_in_both geojson_names csv_names = sorted_list_of_fset (geojson_names |\<inter>| csv_names)"

subsection \<open>Parsed JSON and the Python operations the scripts apply to it\<close>

text \<open>
  What \<open>json.load\<close> returns: \<open>None\<close>, \<open>bool\<close>, \<open>int\<close>, \<open>float\<close>, \<open>str\<close>, \<open>list\<close>
  or \<open>dict\<close>. A \<open>dict\<close> is an association list in insertion order, which is the order
  \<open>items()\<close> and \<open>keys()\<close> iterate in; a key is looked up with \<open>map_of\<close>. The keys
  of a dict that \<open>json.load\<close> builds are distinct; no property below needs that of the
  loaded document. A \<open>float\<close>
  is opaque to everything modelled here except the test against zero, so it is a real
  number; \<open>NaN\<close> and the infinities, which are not JSON, are left out.
  Python's \<open>None\<close> is \<open>JNull\<close>: a function that returns \<open>None\<close> returns \<open>JNull\<close>.
\<close>

datatype json =
    JNull
  | JBool bool
  | JInt int
  | JFloat real
  | JStr string
  | JList "json list"
  | JDict "(string \<times> json) list"

datatype error = KeyError | TypeError | AttributeError

definition bind_err :: "error + 'a \<Rightarrow> ('a \<Rightarrow> error + 'b) \<Rightarrow> error + 'b" where
  "bind_err m f = (case m of Inl e \<Rightarrow> Inl e | Inr x \<Rightarrow> f x)"

fun is_dict :: "json \<Rightarrow> bool" where
  "is_dict (JDict d) = True"
| "is_dict _ = False"

text \<open>Truth value of an object, as \<open>if x:\<close> and \<open>not x\<close> take it.\<close>

fun truthy :: "json \<Rightarrow> bool" where
  "truthy JNull = False"
| "truthy (JBool b) = b"
| "truthy (JInt i) = (i \<noteq> 0)"
| "truthy (JFloat x) = (x \<noteq> 0)"
| "truthy (JStr s) = (s \<noteq> [])"
| "truthy (JList xs) = (xs \<noteq> [])"
| "truthy (JDict d) = (d \<noteq> [])"

text \<open>
  \<open>key in obj\<close> for a string \<open>key\<close>: a key of a dict, an element of a list, a substring
  of a string; \<open>TypeError\<close> for an object that is no container.
\<close>

fun py_contains :: "string \<Rightarrow> json \<Rightarrow> error + bool" where
  "py_contains key (JDict d) = Inr (map_of d key \<noteq> None)"
| "py_contains key (JList xs) = Inr (JStr key \<in> set xs)"
| "py_contains key (JStr s) = Inr (sublist key s)"
| "py_contains key _ = Inl TypeError"

text \<open>\<open>obj[key]\<close> for a string \<open>key\<close>.\<close>

fun py_getitem :: "json \<Rightarrow> string \<Rightarrow> error + json" where
  "py_getitem (JDict d) key = (case map_of d key of None \<Rightarrow> Inl KeyError | Some v \<Rightarrow> Inr v)"
| "py_getitem _ key = Inl TypeError"

text \<open>\<open>obj.get(key, default)\<close>: a method of \<open>dict\<close> only.\<close>

fun py_get :: "json \<Rightarrow> string \<Rightarrow> json \<Rightarrow> error + json" where
  "py_get (JDict d) key dflt = Inr (case map_of d key of None \<Rightarrow> dflt | Some v \<Rightarrow> v)"
| "py_get _ key dflt = Inl AttributeError"

text \<open>
  The elements a \<open>for\<close> loop visits: those of a list, the keys of a dict, the characters
  of a string (one string each; every loop below fails on the first of them, so only
  whether there is one matters).
\<close>

fun py_iter :: "json \<Rightarrow> error + json list" where
  "py_iter (JList xs) = Inr xs"
| "py_iter (JDict d) = Inr (map (\<lambda>kv. JStr (fst kv)) d)"
| "py_iter (JStr s) = Inr (map (\<lambda>c. JStr [c]) s)"
| "py_iter _ = Inl TypeError"

text \<open>
  \<open>obj[:3]\<close>. A dict refuses a slice as a key (\<open>TypeError\<close> up to Python 3.11, where a
  slice is unhashable; \<open>KeyError\<close> from 3.12 on); the model takes the former.
\<close>

fun py_slice3 :: "json \<Rightarrow> error + json" where
  "py_slice3 (JList xs) = Inr (JList (take 3 xs))"
| "py_slice3 (JStr s) = Inr (JStr (take 3 s))"
| "py_slice3 _ = Inl TypeError"

text \<open>
  \<open>str(value)\<close>. The text of a string is the string, and \<open>None\<close>, \<open>True\<close> and \<open>False\<close>
  print as their names. How Python formats numbers and nested containers is the
  interpreter's business and is left as the parameter \<open>repr_of\<close>.
\<close>

fun py_str :: "(json \<Rightarrow> string) \<Rightarrow> json \<Rightarrow> string" where
  "py_str repr_of (JStr s) = s"
| "py_str repr_of JNull = ''None''"
| "py_str repr_of (JBool b) = (if b then ''True'' else ''False'')"
| "py_str repr_of v = repr_of v"

text \<open>
  \<open>s.split(sep)\<close> for a separator of one character: the pieces between the separators,
  empty pieces kept, always at least one piece.
\<close>

fun str_split :: "char \<Rightarrow> string \<Rightarrow> string list" where
  "str_split sep [] = [[]]"
| "str_split sep (c # cs) =
     (if c = sep then [] # str_split sep cs
      else (case str_split sep cs of
              [] \<Rightarrow> [[c]]
            | w # ws \<Rightarrow> (c # w) # ws))"

subsection \<open>\<open>src/components/GIS/helper/extract_nested_values.py\<close>\<close>

text \<open>
  The loop of \<open>get_nested_value\<close>:
  \<^verbatim>\<open>for key in keys:
    if isinstance(current, dict) and key in current:
        current = current[key]
    else:
        return None
return current\<close>
\<close>

fun descend :: "json \<Rightarrow> string list \<Rightarrow> error + json" where
  "descend current [] = Inr current"
| "descend current (key # keys) =
     (if is_dict current \<and> py_contains key current = Inr True
      then (case py_getitem current key of
              Inl e \<Rightarrow> Inl e
            | Inr v \<Rightarrow> descend v keys)
      else Inr JNull)"

text \<open>
  \<open>get_nested_value\<close>: the loop runs on \<open>path.split('.')\<close> inside
  \<open>try: ... except (KeyError, TypeError, AttributeError): return None\<close>.
\<close>

definition get_nested_value :: "json \<Rightarrow> string \<Rightarrow> json" where
  "get_nested_value obj path =
     (case descend obj (str_split CHR ''.'' path) of
        Inl KeyError \<Rightarrow> JNull
      | Inl TypeError \<Rightarrow> JNull
      | Inl AttributeError \<Rightarrow> JNull
      | Inr v \<Rightarrow> v)"

text \<open>
  Address resolution in the words of the specification: for each segment, descend into
  the entry for that key only if the current value is a mapping and contains the key;
  otherwise the address is not found (\<open>None\<close> here).
\<close>

fun spec_resolve :: "json \<Rightarrow> string list \<Rightarrow> json option" where
  "spec_resolve v [] = Some v"
| "spec_resolve (JDict d) (k # ks) =
     (case map_of d k of None \<Rightarrow> None | Some v \<Rightarrow> spec_resolve v ks)"
| "spec_resolve _ (k # ks) = None"

text \<open>
  The body of the loop of \<open>extract_values\<close> for one feature, and the loop: one appended
  value per feature; an exception leaves the loop.
\<close>

definition extract_value :: "(json \<Rightarrow> string) \<Rightarrow> string \<Rightarrow> json \<Rightarrow> error + string" where
  "extract_value repr_of path feature =
     bind_err (py_get feature ''properties'' (JDict [])) (\<lambda>properties.
       let value = get_nested_value properties path
       in Inr (if value \<noteq> JNull then py_str repr_of value else []))"

fun extract_loop :: "(json \<Rightarrow> string) \<Rightarrow> string \<Rightarrow> json list \<Rightarrow> error + string list" where
  "extract_loop repr_of path [] = Inr []"
| "extract_loop repr_of path (feature # features) =
     bind_err (extract_value repr_of path feature) (\<lambda>v.
       bind_err (extract_loop repr_of path features) (\<lambda>vs. Inr (v # vs)))"

text \<open>
  \<open>extract_values\<close> on \<open>self.data\<close>: the empty list when the document is falsy or has no
  \<open>'features'\<close>; \<open>len(features)\<close> and the loop need an iterable.
\<close>

definition extract_values :: "(json \<Rightarrow> string) \<Rightarrow> json \<Rightarrow> string \<Rightarrow> error + string list" where
  "extract_values repr_of data path =
     (if \<not> truthy data then Inr []
      else bind_err (py_contains ''features'' data) (\<lambda>has.
        if \<not> has then Inr []
        else bind_err (py_getitem data ''features'') (\<lambda>features.
          bind_err (py_iter features) (\<lambda>fs. extract_loop repr_of path fs))))"

text \<open>
  \<open>export_to_csv\<close>: the rows handed to \<open>writer.writerow\<close>, the header \<open>['value']\<close> and
  then one row of one cell per value. The location of the file is left out.
\<close>

definition export_to_csv :: "string list \<Rightarrow> string list list" where
  "export_to_csv values = [''value''] # map (\<lambda>value. [value]) values"

text \<open>
  \<open>analyze_available_paths\<close>: \<open>run\<close> only prints the dictionary it returns, and
  \<open>_find_nested_paths\<close> raises nothing, so the model keeps what can raise: the test for
  \<open>'features'\<close>, the slice \<open>[:3]\<close> and \<open>feature.get('properties', {})\<close> on each of the
  first three features.
\<close>

fun first_features_properties :: "json list \<Rightarrow> error + unit" where
  "first_features_properties [] = Inr ()"
| "first_features_properties (feature # features) =
     bind_err (py_get feature ''properties'' (JDict [])) (\<lambda>properties.
       first_features_properties features)"

definition analyze_available_paths :: "json \<Rightarrow> error + unit" where
  "analyze_available_paths data =
     (if \<not> truthy data then Inr ()
      else bind_err (py_contains ''features'' data) (\<lambda>has.
        if \<not> has then Inr ()
        else bind_err (py_getitem data ''features'') (\<lambda>all_features.
          bind_err (py_slice3 all_features) (\<lambda>features.
            bind_err (py_iter features) first_features_properties))))"

text \<open>
  \<open>run\<close>. \<open>load_geojson\<close> reads the file: the argument is what it loaded, \<open>None\<close> when
  the file is missing or is not JSON (reported, \<open>run\<close> returns \<open>False\<close>). The result is
  \<open>Extracted rows\<close> when \<open>run\<close> writes the CSV file and returns \<open>True\<close>, and \<open>Failed\<close>
  when it returns \<open>False\<close>.
\<close>

datatype run_result = Extracted "string list list" | Failed

definition run :: "(json \<Rightarrow> string) \<Rightarrow> json option \<Rightarrow> string \<Rightarrow> error + run_result" where
  "run repr_of loaded path =
     (case loaded of
        None \<Rightarrow> Inr Failed
      | Some data \<Rightarrow>
          bind_err (analyze_available_paths data) (\<lambda>available_paths.
            bind_err (extract_values repr_of data path) (\<lambda>values.
              if values = [] then Inr Failed
              else Inr (Extracted (export_to_csv values)))))"

text \<open>
  \<open>main\<close> of the extractor: status 0 when \<open>run\<close> returns \<open>True\<close>, \<open>sys.exit(1)\<close> when it
  returns \<open>False\<close>, and the interpreter's traceback for an exception nobody caught.
\<close>

datatype exit = Exit_0 | Sys_exit_1 | Traceback error

definition main_extractor :: "(json \<Rightarrow> string) \<Rightarrow> json option \<Rightarrow> string \<Rightarrow> exit" where
  "main_extractor repr_of loaded path =
     (case run repr_of loaded path of
        Inl e \<Rightarrow> Traceback e
      | Inr (Extracted rows) \<Rightarrow> Exit_0
      | Inr Failed \<Rightarrow> Sys_exit_1)"

subsection \<open>\<open>src/components/GIS/helper/geojson_structure_analyzer.py\<close>\<close>

text \<open>
  \<open>_count_coordinates\<close>. \<open>isinstance(coords, (int, float))\<close> holds for \<open>int\<close>, for
  \<open>float\<close> and for \<open>bool\<close>, which is a subclass of \<open>int\<close> in Python; only a \<open>list\<close> is
  descended into.
\<close>

fun count_coordinates :: "json \<Rightarrow> nat" where
  "count_coordinates (JBool b) = 1"
| "count_coordinates (JInt i) = 1"
| "count_coordinates (JFloat x) = 1"
| "count_coordinates (JList coords) = sum_list (map count_coordinates coords)"
| "count_coordinates _ = 0"

text \<open>
  The counter in the words of the specification, whose data model keeps numbers and
  booleans apart: a number contributes 1, a sequence the sum over its elements, anything
  else 0. And the number of boolean leaves, for comparing the two.
\<close>

fun spec_count_coordinates :: "json \<Rightarrow> nat" where
  "spec_count_coordinates (JInt i) = 1"
| "spec_count_coordinates (JFloat x) = 1"
| "spec_count_coordinates (JList coords) = sum_list (map spec_count_coordinates coords)"
| "spec_count_coordinates _ = 0"

fun boolean_leaves :: "json \<Rightarrow> nat" where
  "boolean_leaves (JBool b) = 1"
| "boolean_leaves (JList coords) = sum_list (map boolean_leaves coords)"
| "boolean_leaves _ = 0"

text \<open>More Python: \<open>len\<close>, \<open>keys()\<close>, \<open>items()\<close>, \<open>type(value).__name__\<close>.\<close>

fun py_len :: "json \<Rightarrow> error + nat" where
  "py_len (JList xs) = Inr (length xs)"
| "py_len (JDict d) = Inr (length d)"
| "py_len (JStr s) = Inr (length (filter (\<lambda>c. \<not> (128 \<le> (of_char c :: nat) \<and> (of_char c :: nat) < 192)) s))"
| "py_len _ = Inl TypeError"

fun py_keys :: "json \<Rightarrow> error + string list" where
  "py_keys (JDict d) = Inr (map fst d)"
| "py_keys _ = Inl AttributeError"

fun py_items :: "json \<Rightarrow> error + (string \<times> json) list" where
  "py_items (JDict d) = Inr d"
| "py_items _ = Inl AttributeError"

fun type_name :: "json \<Rightarrow> string" where
  "type_name JNull = ''NoneType''"
| "type_name (JBool b) = ''bool''"
| "type_name (JInt i) = ''int''"
| "type_name (JFloat x) = ''float''"
| "type_name (JStr s) = ''str''"
| "type_name (JList xs) = ''list''"
| "type_name (JDict d) = ''dict''"

text \<open>
  The dictionaries the analyzer builds are association lists in insertion order as well.
  \<open>d[key]\<close> raises \<open>KeyError\<close> for a missing key. \<open>setdefault_apply key init f d\<close> is the
  pattern \<^verbatim>\<open>if key not in d: d[key] = init\<close> followed by an update of \<open>d[key]\<close> with
  \<open>f\<close>: an old key keeps its place, a new key goes last. \<open>dict(pairs)\<close> stores the pairs
  one after the other.
\<close>

definition dict_getitem :: "(string \<times> 'v) list \<Rightarrow> string \<Rightarrow> error + 'v" where
  "dict_getitem d key = (case map_of d key of None \<Rightarrow> Inl KeyError | Some v \<Rightarrow> Inr v)"

fun setdefault_apply :: "string \<Rightarrow> 'v \<Rightarrow> ('v \<Rightarrow> 'v) \<Rightarrow> (string \<times> 'v) list \<Rightarrow> (string \<times> 'v) list" where
  "setdefault_apply key init f [] = [(key, f init)]"
| "setdefault_apply key init f ((k, v) # d) =
     (if k = key then (k, f v) # d else (k, v) # setdefault_apply key init f d)"

definition dict_of_pairs :: "(string \<times> 'v) list \<Rightarrow> (string \<times> 'v) list" where
  "dict_of_pairs pairs = foldl (\<lambda>d (k, v). setdefault_apply k v (\<lambda>old. v) d) [] pairs"

text \<open>
  \<open>sorted(xs, key=key, reverse=True)\<close>: descending in the key, and elements with equal
  keys stay in their original order (the list is reversed, sorted by a stable sort and
  reversed again).
\<close>

definition sorted_reverse :: "('a \<Rightarrow> 'k::linorder) \<Rightarrow> 'a list \<Rightarrow> 'a list" where
  "sorted_reverse key xs = rev (sort_key key (rev xs))"

text \<open>
  A Python set of geometry type tags, as the list of its elements. Lists and dicts are
  unhashable; among the hashable values \<open>1\<close>, \<open>1.0\<close> and \<open>True\<close> are equal, so a set
  keeps one of them. \<open>sorted\<close> of such a set orders strings among themselves and numbers
  among themselves and raises \<open>TypeError\<close> when it has to compare a string with a number.
\<close>

fun num_value :: "json \<Rightarrow> real option" where
  "num_value (JBool b) = Some (if b then 1 else 0)"
| "num_value (JInt i) = Some (of_int i)"
| "num_value (JFloat x) = Some x"
| "num_value _ = None"

definition py_eq :: "json \<Rightarrow> json \<Rightarrow> bool" where
  "py_eq a b = (case (num_value a, num_value b) of
                  (Some x, Some y) \<Rightarrow> x = y
                | (None, None) \<Rightarrow> a = b
                | _ \<Rightarrow> False)"

fun hashable :: "json \<Rightarrow> bool" where
  "hashable (JList xs) = False"
| "hashable (JDict d) = False"
| "hashable _ = True"

definition set_add :: "json \<Rightarrow> json list \<Rightarrow> error + json list" where
  "set_add x s =
     (if \<not> hashable x then Inl TypeError
      else if list_ex (\<lambda>y. py_eq y x) s then Inr s
      else Inr (s @ [x]))"

fun str_value :: "json \<Rightarrow> string option" where
  "str_value (JStr s) = Some s"
| "str_value _ = None"

definition py_sorted :: "json list \<Rightarrow> error + json list" where
  "py_sorted s =
     (if list_all (\<lambda>x. str_value x \<noteq> None) s
      then Inr (map JStr (sort (map (\<lambda>x. the (str_value x)) s)))
      else if list_all (\<lambda>x. num_value x \<noteq> None) s
      then Inr (sort_key (\<lambda>x. the (num_value x)) s)
      else Inl TypeError)"

text \<open>
  \<open>self.analysis\<close>. Each of \<open>'structure'\<close>, \<open>'properties'\<close> and \<open>'statistics'\<close> starts as
  the empty dict and gets all its keys in one step, so each is \<open>None\<close> (empty, every
  lookup in it a \<open>KeyError\<close>) or a record of its entries. \<open>'file_info'\<close> (path, size and
  date, read from the file system and the clock) is always filled and is left out.
\<close>

record structure_info =
  s_type :: json
  s_has_features :: bool
  s_feature_count :: nat
  s_has_bbox :: bool
  s_has_crs :: bool
  s_top_level_keys :: "string list"

record properties_info =
  all_properties :: "(string \<times> nat) list"
  property_types :: "(string \<times> string fset) list"
  sample_values :: "(string \<times> string list) list"
  unique_value_counts :: "(string \<times> nat) list"

record statistics_info =
  avg_coordinates :: real
  total_features :: nat

record analysis =
  a_structure :: "structure_info option"
  a_properties :: "properties_info option"
  a_geometry_types :: "json list"
  a_coordinate_systems :: "string fset"
  a_statistics :: "statistics_info option"

definition init_analysis :: analysis where
  "init_analysis = \<lparr>a_structure = None, a_properties = None, a_geometry_types = [],
     a_coordinate_systems = {||}, a_statistics = None\<rparr>"

definition analyze_structure :: "(json \<Rightarrow> string) \<Rightarrow> json \<Rightarrow> analysis \<Rightarrow> error + analysis" where
  "analyze_structure repr_of data a =
     (if \<not> truthy data then Inr a
      else
        bind_err (py_get data ''type'' JNull) (\<lambda>type_tag.
        bind_err (py_contains ''features'' data) (\<lambda>has_features.
        bind_err (py_get data ''features'' (JList [])) (\<lambda>features.
        bind_err (py_len features) (\<lambda>feature_count.
        bind_err (py_contains ''bbox'' data) (\<lambda>has_bbox.
        bind_err (py_contains ''crs'' data) (\<lambda>has_crs.
        bind_err (py_keys data) (\<lambda>top_level_keys.
          let a' = a\<lparr>a_structure := Some \<lparr>s_type = type_tag, s_has_features = has_features,
                      s_feature_count = feature_count, s_has_bbox = has_bbox,
                      s_has_crs = has_crs, s_top_level_keys = top_level_keys\<rparr>\<rparr>
          in if has_crs
             then bind_err (py_getitem data ''crs'') (\<lambda>crs.
                    Inr (a'\<lparr>a_coordinate_systems :=
                             finsert (py_str repr_of crs) (a_coordinate_systems a')\<rparr>))
             else Inr a'))))))))"

text \<open>
  The four dictionaries of \<open>analyze_properties\<close> while the loops run, the inner loop
  over \<open>properties.items()\<close> and the outer loop over the features.
\<close>

record property_counters =
  c_all_properties :: "(string \<times> nat) list"
  c_property_types :: "(string \<times> string fset) list"
  c_property_values :: "(string \<times> string list) list"
  c_unique_values :: "(string \<times> string fset) list"

definition init_counters :: property_counters where
  "init_counters = \<lparr>c_all_properties = [], c_property_types = [],
     c_property_values = [], c_unique_values = []\<rparr>"

fun count_items :: "(json \<Rightarrow> string) \<Rightarrow> (string \<times> json) list \<Rightarrow> property_counters \<Rightarrow> property_counters" where
  "count_items repr_of [] st = st"
| "count_items repr_of ((key, v) # items) st =
     count_items repr_of items
       \<lparr>c_all_properties = setdefault_apply key 0 Suc (c_all_properties st),
        c_property_types = setdefault_apply key {||} (finsert (type_name v)) (c_property_types st),
        c_property_values =
          setdefault_apply key []
            (\<lambda>samples. if length samples < 5 then samples @ [py_str repr_of v] else samples)
            (c_property_values st),
        c_unique_values =
          setdefault_apply key {||} (finsert (py_str repr_of v)) (c_unique_values st)\<rparr>"

fun count_features :: "(json \<Rightarrow> string) \<Rightarrow> json list \<Rightarrow> property_counters \<Rightarrow> error + property_counters" where
  "count_features repr_of [] st = Inr st"
| "count_features repr_of (feature # features) st =
     bind_err (py_get feature ''properties'' (JDict [])) (\<lambda>properties.
       bind_err (py_items properties) (\<lambda>items.
         count_features repr_of features (count_items repr_of items st)))"

definition analyze_properties :: "(json \<Rightarrow> string) \<Rightarrow> json \<Rightarrow> analysis \<Rightarrow> error + analysis" where
  "analyze_properties repr_of data a =
     (if \<not> truthy data then Inr a
      else bind_err (py_contains ''features'' data) (\<lambda>has.
        if \<not> has then Inr a
        else bind_err (py_getitem data ''features'') (\<lambda>features.
          bind_err (py_iter features) (\<lambda>fs.
            bind_err (count_features repr_of fs init_counters) (\<lambda>st.
              Inr (a\<lparr>a_properties := Some
                \<lparr>all_properties = dict_of_pairs (sorted_reverse snd (c_all_properties st)),
                 property_types = c_property_types st,
                 sample_values = c_property_values st,
                 unique_value_counts = map (\<lambda>(k, u). (k, fcard u)) (c_unique_values st)\<rparr>\<rparr>))))))"

text \<open>
  \<open>analyze_geometry\<close>: the loop keeps the set of type tags and the list of coordinate
  counts. The mean is a float in Python and a real number here.
\<close>

fun geometry_loop :: "json list \<Rightarrow> json list \<Rightarrow> nat list \<Rightarrow> error + json list \<times> nat list" where
  "geometry_loop [] geometry_types coordinate_counts = Inr (geometry_types, coordinate_counts)"
| "geometry_loop (feature # features) geometry_types coordinate_counts =
     bind_err (py_get feature ''geometry'' (JDict [])) (\<lambda>geometry.
     bind_err (py_get geometry ''type'' JNull) (\<lambda>geom_type.
     bind_err (if truthy geom_type then set_add geom_type geometry_types
               else Inr geometry_types) (\<lambda>geometry_types'.
     bind_err (py_get geometry ''coordinates'' (JList [])) (\<lambda>coords.
       geometry_loop features geometry_types'
         (if truthy coords then coordinate_counts @ [count_coordinates coords]
          else coordinate_counts)))))"

definition analyze_geometry :: "json \<Rightarrow> analysis \<Rightarrow> error + analysis" where
  "analyze_geometry data a =
     (if \<not> truthy data then Inr a
      else bind_err (py_contains ''features'' data) (\<lambda>has.
        if \<not> has then Inr a
        else bind_err (py_getitem data ''features'') (\<lambda>features.
          bind_err (py_iter features) (\<lambda>fs.
            bind_err (geometry_loop fs [] []) (\<lambda>(geometry_types, coordinate_counts).
              bind_err (py_len features) (\<lambda>total.
                Inr (a\<lparr>a_geometry_types := geometry_types,
                       a_statistics := Some
                         \<lparr>avg_coordinates =
                            (if coordinate_counts \<noteq> []
                             then real (sum_list coordinate_counts) / real (length coordinate_counts)
                             else 0),
                          total_features = total\<rparr>\<rparr>)))))))"

text \<open>\<open>analyze\<close>, once the file is loaded: the three passes in their order.\<close>

definition analyze :: "(json \<Rightarrow> string) \<Rightarrow> json \<Rightarrow> error + analysis" where
  "analyze repr_of data =
     bind_err (analyze_structure repr_of data init_analysis) (\<lambda>a1.
       bind_err (analyze_properties repr_of data a1) (\<lambda>a2.
         analyze_geometry data a2))"

text \<open>
  \<open>generate_markdown\<close>. The report is kept as the data its sections show, in the order
  the code reads them from \<open>self.analysis\<close>: the structure overview, the geometry section
  (the sorted type tags and, when the mean is positive, the statistics), the rows of the
  property summary table (property, occurrences, data types, unique values) and the
  sample values. The wording and layout of the Markdown text, the recommendations and
  the data quality notes, which read nothing new, are left out.
\<close>

record report =
  r_structure :: structure_info
  r_geometry :: "(json list \<times> statistics_info option) option"
  r_property_summary :: "(string \<times> nat \<times> string fset \<times> nat) list"
  r_sample_values :: "(string \<times> string list) list"
  r_coordinate_systems :: "string fset"

definition geometry_section :: "analysis \<Rightarrow> error + (json list \<times> statistics_info option) option" where
  "geometry_section a =
     (if a_geometry_types a = [] then Inr None
      else bind_err (py_sorted (a_geometry_types a)) (\<lambda>tags.
        case a_statistics a of
          None \<Rightarrow> Inl KeyError
        | Some st \<Rightarrow> Inr (Some (tags, if avg_coordinates st > 0 then Some st else None))))"

fun property_summary :: "properties_info \<Rightarrow> (string \<times> nat) list \<Rightarrow> error + (string \<times> nat \<times> string fset \<times> nat) list" where
  "property_summary p [] = Inr []"
| "property_summary p ((prop, count) # items) =
     bind_err (dict_getitem (property_types p) prop) (\<lambda>types.
     bind_err (dict_getitem (unique_value_counts p) prop) (\<lambda>unique_count.
     bind_err (property_summary p items) (\<lambda>rows.
       Inr ((prop, count, types, unique_count) # rows))))"

definition generate_markdown :: "analysis \<Rightarrow> error + report" where
  "generate_markdown a =
     (case a_structure a of
        None \<Rightarrow> Inl KeyError
      | Some s \<Rightarrow>
          bind_err (geometry_section a) (\<lambda>geometry.
            case a_properties a of
              None \<Rightarrow> Inl KeyError
            | Some p \<Rightarrow>
                bind_err (if all_properties p \<noteq> [] then property_summary p (all_properties p)
                          else Inr []) (\<lambda>rows.
                  Inr \<lparr>r_structure = s, r_geometry = geometry, r_property_summary = rows,
                       r_sample_values = (if all_properties p \<noteq> [] then sample_values p else []),
                       r_coordinate_systems = a_coordinate_systems a\<rparr>)))"

text \<open>
  \<open>main\<close> of the analyzer up to the written report: \<open>sys.exit(1)\<close> when the file did not
  load, the traceback of an exception raised while analyzing or rendering, or the report.
\<close>

datatype report_result = Report report | Not_loaded | Uncaught error

definition main_analyzer :: "(json \<Rightarrow> string) \<Rightarrow> json option \<Rightarrow> report_result" where
  "main_analyzer repr_of loaded =
     (case loaded of
        None \<Rightarrow> Not_loaded
      | Some data \<Rightarrow>
          (case analyze repr_of data of
             Inl e \<Rightarrow> Uncaught e
           | Inr a \<Rightarrow>
               (case generate_markdown a of
                  Inl e \<Rightarrow> Uncaught e
                | Inr rep \<Rightarrow> Report rep)))"

text \<open>
  Helpers for stating the properties of the extractor: the properties value the loop
  reads from a feature that is a dict, \<open>sep.join(pieces)\<close>, the cell the loop appends
  for one feature, and a collection of four features to evaluate on.
\<close>

definition properties_of :: "json \<Rightarrow> json" where
  "properties_of feature =
     (case py_get feature ''properties'' (JDict []) of Inl e \<Rightarrow> JNull | Inr p \<Rightarrow> p)"

fun str_join :: "char \<Rightarrow> string list \<Rightarrow> string" where
  "str_join sep [] = []"
| "str_join sep [w] = w"
| "str_join sep (w # ws) = w @ sep # str_join sep ws"

definition row_value :: "(json \<Rightarrow> string) \<Rightarrow> string \<Rightarrow> json \<Rightarrow> string" where
  "row_value repr_of path feature =
     (let value = get_nested_value (properties_of feature) path
      in if value = JNull then [] else py_str repr_of value)"

definition example_features :: "json list" where
  "example_features =
     [JDict [(''type'', JStr ''Feature''),
             (''properties'', JDict [(''tags'', JDict [(''name:en'', JStr ''Oromia'')])])],
      JDict [(''type'', JStr ''Feature''), (''properties'', JDict [])],
      JDict [(''type'', JStr ''Feature''),
             (''properties'', JDict [(''tags'', JDict [(''name:en'', JNull)])])],
      JDict [(''type'', JStr ''Feature''), (''properties'', JNull)]]"

definition example_collection :: "(string \<times> json) list" where
  "example_collection =
     [(''type'', JStr ''FeatureCollection''), (''features'', JList example_features)]"

text \<open>
  Helpers for stating the ranking of the properties: a feature whose properties the
  per-feature pass can iterate, the keys the pass meets, in its order, the keys in the
  order of their first appearance, each key with the number of times it is met, and a
  collection of four features to evaluate on.
\<close>

definition has_properties :: "json \<Rightarrow> bool" where
  "has_properties feature =
     (case py_get feature ''properties'' (JDict []) of Inl e \<Rightarrow> False | Inr p \<Rightarrow> is_dict p)"

definition keys_of :: "json \<Rightarrow> string list" where
  "keys_of properties = (case py_keys properties of Inl e \<Rightarrow> [] | Inr ks \<Rightarrow> ks)"

definition property_keys :: "json list \<Rightarrow> string list" where
  "property_keys features = concat (map (\<lambda>f. keys_of (properties_of f)) features)"

fun first_seen :: "string list \<Rightarrow> string list" where
  "first_seen [] = []"
| "first_seen (k # ks) = k # filter (\<lambda>x. x \<noteq> k) (first_seen ks)"

definition occurrences :: "string list \<Rightarrow> (string \<times> nat) list" where
  "occurrences ks = map (\<lambda>k. (k, count_list ks k)) (first_seen ks)"

definition ranking_features :: "json list" where
  "ranking_features =
     [JDict [(''type'', JStr ''Feature''), (''properties'', JDict [(''id'', JInt 1)])],
      JDict [(''type'', JStr ''Feature''),
             (''properties'', JDict [(''name'', JStr ''Oromia''), (''population'', JInt 5)])],
      JDict [(''type'', JStr ''Feature'')],
      JDict [(''type'', JStr ''Feature''),
             (''properties'', JDict [(''population'', JInt 7), (''name'', JStr ''Amhara'')])]]"

definition ranking_collection :: "(string \<times> json) list" where
  "ranking_collection =
     [(''type'', JStr ''FeatureCollection''), (''features'', JList ranking_features)]"

section \<open>Properties\<close>

subsection \<open>Replacement and normalization\<close>

lemma replace_absent:
  "old \<noteq> [] \<Longrightarrow> \<not> set old \<subseteq> set s \<Longrightarrow> replace old new s = s"
proof (induction old new s rule: replace.induct)
  case (1 old new)
  then show ?case by simp
next
  case (2 old new c cs)
  have np: "\<not> prefix old (c # cs)"
    using "2.prems"(2) set_mono_prefix by blast
  have "\<not> set old \<subseteq> set cs"
    using "2.prems"(2) by auto
  with 2 np show ?case by simp
qed

lemma replace_char_filter:
  "replace [a] [] s = filter (\<lambda>c. c \<noteq> a) s"
proof (induction s)
  case Nil
  show ?case by simp
next
  case (Cons c cs)
  then show ?case by (cases "c = a") simp_all
qed

lemma replace_delete_subseq:
  "subseq (replace old [] s) s"
proof (induction old "[] :: string" s rule: replace.induct)
  case (1 old)
  show ?case by simp
next
  case (2 old c cs)
  show ?case
  proof (cases "old = []")
    case True
    with 2 show ?thesis by simp
  next
    case False
    show ?thesis
    proof (cases "prefix old (c # cs)")
      case True
      have "subseq (replace old [] (drop (length old) (c # cs))) (drop (length old) (c # cs))"
        using 2(2) [OF False True] .
      moreover have "subseq (drop (length old) (c # cs)) (c # cs)"
        by (metis append_take_drop_id list_emb_append2 subseq_order.order_refl)
      ultimately have "subseq (replace old [] (drop (length old) (c # cs))) (c # cs)"
        by (rule subseq_order.order_trans)
      with False True show ?thesis by simp
    next
      case np: False
      with False 2(3) show ?thesis by simp
    qed
  qed
qed

lemma normalize_no_space:
  "CHR '' '' \<notin> set (normalize_name s)"
  by (simp add: normalize_name_def replace_char_filter)

lemma replace_keeps:
  "c \<notin> set old \<Longrightarrow> filter (\<lambda>x. x = c) (replace old [] s) = filter (\<lambda>x. x = c) s"
proof (induction old "[] :: string" s rule: replace.induct)
  case (1 old)
  show ?case by simp
next
  case (2 old d cs)
  show ?case
  proof (cases "old = []")
    case True
    with 2 show ?thesis by simp
  next
    case False
    show ?thesis
    proof (cases "prefix old (d # cs)")
      case True
      then obtain r where r: "d # cs = old @ r"
        by (auto simp: prefix_def)
      have "filter (\<lambda>x. x = c) (replace old [] (drop (length old) (d # cs))) =
            filter (\<lambda>x. x = c) (drop (length old) (d # cs))"
        using 2(2) [OF False True "2.prems"] .
      moreover have "filter (\<lambda>x. x = c) (d # cs) = filter (\<lambda>x. x = c) (drop (length old) (d # cs))"
        using "2.prems" unfolding r by (auto simp: filter_empty_conv)
      ultimately show ?thesis using False True by simp
    next
      case np: False
      with False 2(3) "2.prems" show ?thesis by simp
    qed
  qed
qed

text \<open>
  Claim C1, as stated: normalization removes \<open>" Province"\<close> and \<open>" County"\<close> and then
  every remaining whitespace character, not only the space. The code's last step is
  \<open>.replace(" ", "")\<close>: at the input \<open>a<TAB>b\<close> the tab, a whitespace character, is
  still in the result, which is the input unchanged.
\<close>

theorem normalize_keeps_tab_counterexample:
  "spec_whitespace (CHR 0x09)
   \<and> normalize_name [CHR ''a'', CHR 0x09, CHR ''b''] = [CHR ''a'', CHR 0x09, CHR ''b'']
   \<and> CHR 0x09 \<in> set (normalize_name [CHR ''a'', CHR 0x09, CHR ''b''])"
  by (simp add: normalize_name_def spec_whitespace_def)

text \<open>
  Claim C1, amended: normalization deletes the occurrences of \<open>" Province"\<close>, then those of
  \<open>" County"\<close>, then every space character \<open>U+0020\<close> and no other whitespace: the result
  is the suffix-stripped text filtered of spaces, it holds no space, it is a subsequence
  of the input (characters are only deleted, never rewritten, so there is no case
  folding), and every occurrence of a whitespace character other than the space is kept.
\<close>

theorem normalize_removes_suffixes_then_spaces:
  "normalize_name s =
     filter (\<lambda>c. c \<noteq> CHR '' '') (replace '' County'' [] (replace '' Province'' [] s))
   \<and> CHR '' '' \<notin> set (normalize_name s)
   \<and> subseq (normalize_name s) s
   \<and> (spec_whitespace c \<and> c \<noteq> CHR '' '' \<longrightarrow>
        filter (\<lambda>x. x = c) (normalize_name s) = filter (\<lambda>x. x = c) s)"
proof -
  have a: "normalize_name s =
      filter (\<lambda>c. c \<noteq> CHR '' '') (replace '' County'' [] (replace '' Province'' [] s))"
    by (simp add: normalize_name_def replace_char_filter)
  have b: "subseq (normalize_name s) s"
    unfolding normalize_name_def
    by (blast intro: subseq_order.order_trans replace_delete_subseq)
  have c: "filter (\<lambda>x. x = c) (normalize_name s) = filter (\<lambda>x. x = c) s"
    if "spec_whitespace c" "c \<noteq> CHR '' ''"
  proof -
    have "c \<notin> set '' ''" "c \<notin> set '' County''" "c \<notin> set '' Province''"
      using that by (auto simp: spec_whitespace_def)
    then show ?thesis
      unfolding normalize_name_def by (simp add: replace_keeps)
  qed
  from a b c normalize_no_space show ?thesis by blast
qed

theorem normalize_removes_suffixes_then_spaces_witness:
  "spec_whitespace (CHR 0x0A) \<and> CHR 0x0A \<noteq> CHR '' ''
   \<and> filter (\<lambda>x. x = CHR 0x0A) (normalize_name [CHR ''N'', CHR '' '', CHR 0x0A, CHR ''Y''])
       = [CHR 0x0A]
   \<and> CHR '' '' \<notin> set (normalize_name [CHR ''N'', CHR '' '', CHR 0x0A, CHR ''Y''])"
  using normalize_removes_suffixes_then_spaces
    [of "[CHR ''N'', CHR '' '', CHR 0x0A, CHR ''Y'']" "CHR 0x0A"]
  by (simp add: spec_whitespace_def)

text \<open>
  The order of the three replacements matters, and letter case is compared as it is:
  the suffix goes before the spaces do, and \<open>" province"\<close> is no suffix.
\<close>

lemma normalize_examples:
  "normalize_name ''Amhara Region Province'' = ''AmharaRegion''"
  "normalize_name ''Addis Ababa'' = ''AddisAbaba''"
  "normalize_name ''Kent County'' = ''Kent''"
  "normalize_name ''Amhara province'' = ''Amharaprovince''"
  "normalize_name [] = []"
  by (simp_all add: normalize_name_def)

text \<open>
  Claim C6: normalization is idempotent, \<open>normalize(normalize(s)) == normalize(s)\<close> for
  every string \<open>s\<close>. A normalized name holds no space, and each of the three searched
  literals holds one, so the second pass finds nothing to replace.
\<close>

theorem normalize_idempotent:
  "normalize_name (normalize_name s) = normalize_name s"
proof -
  have ns: "CHR '' '' \<notin> set (normalize_name s)"
    by (rule normalize_no_space)
  have 1: "replace '' Province'' [] (normalize_name s) = normalize_name s"
    by (rule replace_absent) (use ns in auto)
  have 2: "replace '' County'' [] (normalize_name s) = normalize_name s"
    by (rule replace_absent) (use ns in auto)
  have 3: "replace '' '' [] (normalize_name s) = normalize_name s"
    by (rule replace_absent) (use ns in auto)
  show ?thesis
    by (subst (1) normalize_name_def) (simp only: 1 2 3)
qed

subsection \<open>The three groups of the name reconciler\<close>

lemma sorted_list_of_fset_sorted:
  "sorted (sorted_list_of_fset S) \<and> distinct (sorted_list_of_fset S)"
  by (simp add: sorted_list_of_fset.rep_eq)

text \<open>
  Claim C5: for name sets \<open>A\<close> (GeoJSON) and \<open>B\<close> (CSV) the three printed groups hold
  \<open>A - B\<close>, \<open>B - A\<close> and \<open>A \<inter> B\<close>; they are pairwise disjoint, their union is
  \<open>A \<union> B\<close>, and each is printed as a sorted list (the order on strings is the
  lexicographic one on character codes) without repetition.
\<close>

theorem name_groups_partition:
  "set (geojson_not_in_csv A B) = fset A - fset B
   \<and> set (csv_not_in_geojson A B) = fset B - fset A
   \<and> set (present_in_both A B) = fset A \<inter> fset B
   \<and> set (geojson_not_in_csv A B) \<inter> set (csv_not_in_geojson A B) = {}
   \<and> set (geojson_not_in_csv A B) \<inter> set (present_in_both A B) = {}
   \<and> set (csv_not_in_geojson A B) \<inter> set (present_in_both A B) = {}
   \<and> set (geojson_not_in_csv A B) \<union> set (csv_not_in_geojson A B) \<union> set (present_in_both A B)
       = fset A \<union> fset B
   \<and> sorted (geojson_not_in_csv A B) \<and> distinct (geojson_not_in_csv A B)
   \<and> sorted (csv_not_in_geojson A B) \<and> distinct (csv_not_in_geojson A B)
   \<and> sorted (present_in_both A B) \<and> distinct (present_in_both A B)"
  unfolding geojson_not_in_csv_def csv_not_in_geojson_def present_in_both_def
  by (auto simp: sorted_list_of_fset_sorted)

lemma name_groups_example:
  "geojson_not_in_csv {|''b'', ''a'', ''c'', []|} {|''c''|} = [[], ''a'', ''b'']"
  "present_in_both {|''b'', ''a'', ''c'', []|} {|''c''|} = [''c'']"
  "csv_not_in_geojson {|''b'', ''a'', ''c'', []|} {|''c''|} = []"
  by code_simp+

subsection \<open>Address resolution\<close>

lemma str_split_not_Nil: "str_split sep s \<noteq> []"
  by (induction s) (auto split: list.splits)

lemma str_join_split: "str_join sep (str_split sep s) = s"
proof (induction s)
  case Nil
  show ?case by simp
next
  case (Cons c cs)
  obtain w ws where ws: "str_split sep cs = w # ws"
    using str_split_not_Nil [of sep cs] by (cases "str_split sep cs") auto
  with Cons show ?case
    by (cases ws) auto
qed

lemma str_split_no_sep: "sep \<notin> set (concat (str_split sep s))"
  by (induction s) (auto split: list.splits)

lemma descend_resolve:
  "descend obj keys = Inr (case spec_resolve obj keys of None \<Rightarrow> JNull | Some v \<Rightarrow> v)"
proof (induction keys arbitrary: obj)
  case Nil
  show ?case by simp
next
  case (Cons key keys)
  show ?case
  proof (cases obj)
    case (JDict d)
    then show ?thesis
      using Cons by (cases "map_of d key") auto
  qed simp_all
qed

lemma get_nested_value_resolve:
  "get_nested_value obj path =
     (case spec_resolve obj (str_split CHR ''.'' path) of None \<Rightarrow> JNull | Some v \<Rightarrow> v)"
  by (simp add: get_nested_value_def descend_resolve)

text \<open>
  Claim C3: address resolution splits the address on \<open>'.'\<close> (the pieces hold no dot and
  joined by dots give the address back), descends into the entry for a segment only if
  the current value is a mapping that contains the key, and otherwise yields "not found",
  Python's \<open>None\<close>. It is total: the loop returns a value for every object and every
  address, no lookup in it raises, so the \<open>except\<close> clause never runs. It is
  deterministic: the result is a function of the object and the address alone.
\<close>

theorem get_nested_value_total_resolution:
  "descend obj (str_split CHR ''.'' path) = Inr (get_nested_value obj path)
   \<and> get_nested_value obj path =
       (case spec_resolve obj (str_split CHR ''.'' path) of None \<Rightarrow> JNull | Some v \<Rightarrow> v)
   \<and> str_join CHR ''.'' (str_split CHR ''.'' path) = path
   \<and> CHR ''.'' \<notin> set (concat (str_split CHR ''.'' path))"
proof (intro conjI)
  show "descend obj (str_split CHR ''.'' path) = Inr (get_nested_value obj path)"
    by (simp add: get_nested_value_resolve descend_resolve)
  show "get_nested_value obj path =
       (case spec_resolve obj (str_split CHR ''.'' path) of None \<Rightarrow> JNull | Some v \<Rightarrow> v)"
    by (rule get_nested_value_resolve)
  show "str_join CHR ''.'' (str_split CHR ''.'' path) = path"
    by (rule str_join_split)
  show "CHR ''.'' \<notin> set (concat (str_split CHR ''.'' path))"
    by (rule str_split_no_sep)
qed

lemma get_nested_value_examples:
  "get_nested_value (JDict [(''tags'', JDict [(''name:en'', JStr ''Oromia'')])]) ''tags.name:en''
     = JStr ''Oromia''"
  "get_nested_value (JDict []) ''tags.name:en'' = JNull"
  "get_nested_value (JDict [(''tags'', JStr ''x'')]) ''tags.name:en'' = JNull"
  "get_nested_value (JDict [(''tags'', JList [JInt 1])]) ''tags.0'' = JNull"
  "get_nested_value (JDict [('''', JInt 7)]) [] = JInt 7"
  by (simp_all add: get_nested_value_def)

subsection \<open>Extraction\<close>

lemma extract_value_dict:
  "is_dict f \<Longrightarrow> extract_value r path f = Inr (row_value r path f)"
  by (cases f)
    (simp_all add: extract_value_def row_value_def properties_of_def bind_err_def Let_def)

lemma extract_loop_map:
  "list_all is_dict fs \<Longrightarrow> extract_loop r path fs = Inr (map (row_value r path) fs)"
  by (induction fs) (simp_all add: extract_value_dict bind_err_def)

lemma extract_values_map:
  assumes "map_of d ''features'' = Some (JList fs)" and "list_all is_dict fs"
  shows "extract_values r (JDict d) path = Inr (map (row_value r path) fs)"
proof -
  have "d \<noteq> []" using assms(1) by auto
  then show ?thesis
    using assms by (simp add: extract_values_def bind_err_def extract_loop_map)
qed

lemma example_collection_features:
  "map_of example_collection ''features'' = Some (JList example_features)"
  "list_all is_dict example_features"
  by (simp_all add: example_collection_def example_features_def)

lemma example_rows:
  "map (row_value r ''tags.name:en'') example_features = [''Oromia'', [], [], []]"
  "map (row_value r ''population'') example_features = [[], [], [], []]"
  by (simp_all add: example_features_def row_value_def properties_of_def get_nested_value_def)

text \<open>
  Claim C4: for a collection whose \<open>'features'\<close> is a list of features (dicts) and for
  every address, \<open>extract_values\<close> returns one value per feature, in feature order: the
  text of the value found, and the empty string where \<open>get_nested_value\<close> gave the
  "not found" value \<open>None\<close>. \<open>export_to_csv\<close> writes the header and one row per value,
  so the number of rows under the header is the number of features.
\<close>

theorem extract_values_one_row_per_feature:
  assumes "map_of d ''features'' = Some (JList fs)" and "list_all is_dict fs"
  shows "\<exists>values. extract_values r (JDict d) path = Inr values
     \<and> values = map (\<lambda>f. let value = get_nested_value (properties_of f) path
                          in if value = JNull then [] else py_str r value) fs
     \<and> length values = length fs
     \<and> export_to_csv values = [''value''] # map (\<lambda>i. [values ! i]) [0..<length fs]
     \<and> length (tl (export_to_csv values)) = length fs"
  using extract_values_map [OF assms, of r path]
  by (auto simp: row_value_def export_to_csv_def map_nth intro!: nth_equalityI)

theorem extract_values_one_row_per_feature_witness:
  "map_of example_collection ''features'' = Some (JList example_features)
   \<and> list_all is_dict example_features
   \<and> extract_values (\<lambda>v. ''?'') (JDict example_collection) ''tags.name:en''
       = Inr [''Oromia'', [], [], []]
   \<and> length example_features = 4
   \<and> export_to_csv [''Oromia'', [], [], []] = [[''value''], [''Oromia''], [[]], [[]], [[]]]"
  using extract_values_one_row_per_feature
    [of example_collection example_features "\<lambda>v. ''?''" "''tags.name:en''"]
  by (simp add: example_collection_def example_features_def export_to_csv_def
      properties_of_def get_nested_value_def)

text \<open>
  Claim C10: when the value at the address is JSON null on a feature, the extractor
  writes the empty string in that feature's row, the same cell it writes when the
  address does not resolve on the feature: the output does not tell the two apart.
\<close>

theorem null_value_written_as_empty:
  assumes "map_of d ''features'' = Some (JList fs)" and "list_all is_dict fs"
    and "i < length fs"
    and "spec_resolve (properties_of (fs ! i)) (str_split CHR ''.'' path) = Some JNull
         \<or> spec_resolve (properties_of (fs ! i)) (str_split CHR ''.'' path) = None"
  shows "\<exists>values. extract_values r (JDict d) path = Inr values
     \<and> length values = length fs \<and> values ! i = []"
proof -
  have "row_value r path (fs ! i) = []"
    using assms(4) by (auto simp: row_value_def get_nested_value_resolve)
  then show ?thesis
    using extract_values_map [OF assms(1,2), of r path] assms(3) by simp
qed

theorem null_value_written_as_empty_witness:
  "map_of example_collection ''features'' = Some (JList example_features)
   \<and> list_all is_dict example_features \<and> (2::nat) < length example_features
   \<and> spec_resolve (properties_of (example_features ! 2)) (str_split CHR ''.'' ''tags.name:en'')
       = Some JNull
   \<and> spec_resolve (properties_of (example_features ! 1)) (str_split CHR ''.'' ''tags.name:en'')
       = None
   \<and> (\<exists>values. extract_values (\<lambda>v. ''?'') (JDict example_collection) ''tags.name:en'' = Inr values
        \<and> length values = length example_features \<and> values ! 2 = [] \<and> values ! 1 = [])"
proof -
  have n: "(2::nat) < length example_features" "(1::nat) < length example_features"
    by (simp_all add: example_features_def)
  have null: "spec_resolve (properties_of (example_features ! 2))
      (str_split CHR ''.'' ''tags.name:en'') = Some JNull"
    by (simp add: example_features_def properties_of_def)
  have absent: "spec_resolve (properties_of (example_features ! 1))
      (str_split CHR ''.'' ''tags.name:en'') = None"
    by (simp add: example_features_def properties_of_def)
  obtain vs where v: "extract_values (\<lambda>v. ''?'') (JDict example_collection) ''tags.name:en''
      = Inr vs" "length vs = length example_features" "vs ! 2 = []"
    using null_value_written_as_empty
      [OF example_collection_features n(1) disjI1 [OF null], of "\<lambda>v. ''?''"]
    by auto
  obtain ws where v': "extract_values (\<lambda>v. ''?'') (JDict example_collection) ''tags.name:en''
      = Inr ws" "ws ! 1 = []"
    using null_value_written_as_empty
      [OF example_collection_features n(2) disjI2 [OF absent], of "\<lambda>v. ''?''"]
    by auto
  from v v' have "vs ! 1 = []" by simp
  with v n null absent example_collection_features show ?thesis by blast
qed

subsection \<open>The run of the extractor\<close>

lemma first_features_properties_dicts:
  "list_all is_dict fs \<Longrightarrow> first_features_properties fs = Inr ()"
proof (induction fs)
  case Nil
  show ?case by simp
next
  case (Cons f fs)
  then show ?case by (cases f) (simp_all add: bind_err_def)
qed

lemma analyze_available_paths_features:
  assumes "map_of d ''features'' = Some (JList fs)" and "list_all is_dict fs"
  shows "analyze_available_paths (JDict d) = Inr ()"
proof -
  have "d \<noteq> []" using assms(1) by auto
  moreover have "list_all is_dict (take 3 fs)"
    using assms(2) by (auto simp: list_all_iff dest: in_set_takeD)
  ultimately show ?thesis
    using assms(1) by (simp add: analyze_available_paths_def bind_err_def
        first_features_properties_dicts)
qed

lemma run_with_features:
  assumes "map_of d ''features'' = Some (JList fs)" and "list_all is_dict fs" and "fs \<noteq> []"
  shows "run r (Some (JDict d)) path = Inr (Extracted (export_to_csv (map (row_value r path) fs)))"
    and "main_extractor r (Some (JDict d)) path = Exit_0"
  using assms analyze_available_paths_features [OF assms(1,2)]
    extract_values_map [OF assms(1,2), of r path]
  by (simp_all add: run_def main_extractor_def bind_err_def)

lemma run_without_features:
  assumes "map_of d ''features'' = Some (JList [])"
  shows "main_extractor r (Some (JDict d)) path = Sys_exit_1"
  using assms analyze_available_paths_features [of d "[]"] extract_values_map [of d "[]" r path]
  by (simp add: run_def main_extractor_def bind_err_def)

text \<open>
  Claim C2 says that a run whose address resolves on no feature ends as the failure
  "no values found", with a status other than zero. The code tests \<open>if not values\<close>, and
  \<open>values\<close> holds one entry per feature, the empty string where nothing was found: on the
  collection of four features and the address \<open>population\<close>, which resolves on none of
  them, every extracted value is the "not found" one, \<open>run\<close> writes a CSV file of four
  empty cells and returns \<open>True\<close>, and \<open>main\<close> ends with status 0.
\<close>

theorem run_unresolved_address_exits_0:
  "list_all (\<lambda>f. get_nested_value (properties_of f) ''population'' = JNull) example_features
   \<and> extract_values r (JDict example_collection) ''population'' = Inr [[], [], [], []]
   \<and> run r (Some (JDict example_collection)) ''population''
       = Inr (Extracted [[''value''], [[]], [[]], [[]], [[]]])
   \<and> main_extractor r (Some (JDict example_collection)) ''population'' = Exit_0"
proof (intro conjI)
  show "list_all (\<lambda>f. get_nested_value (properties_of f) ''population'' = JNull) example_features"
    by (simp add: example_features_def properties_of_def get_nested_value_def)
  show "extract_values r (JDict example_collection) ''population'' = Inr [[], [], [], []]"
    using extract_values_map [OF example_collection_features, of r "''population''"]
    by (simp add: example_rows)
  show "run r (Some (JDict example_collection)) ''population''
       = Inr (Extracted [[''value''], [[]], [[]], [[]], [[]]])"
    using run_with_features(1) [OF example_collection_features, of r "''population''"]
    by (simp add: example_rows export_to_csv_def) (simp add: example_features_def)
  show "main_extractor r (Some (JDict example_collection)) ''population'' = Exit_0"
    using run_with_features(2) [OF example_collection_features, of r "''population''"]
    by (simp add: example_features_def)
qed

subsection \<open>The coordinate counter\<close>

lemma count_coordinates_split:
  "count_coordinates v = spec_count_coordinates v + boolean_leaves v"
proof (induction v rule: count_coordinates.induct)
  case (4 coords)
  have "sum_list (map count_coordinates coords)
      = sum_list (map (\<lambda>c. spec_count_coordinates c + boolean_leaves c) coords)"
    using 4 by (intro arg_cong [where f = sum_list] map_cong) auto
  also have "\<dots> = sum_list (map spec_count_coordinates coords)
      + sum_list (map boolean_leaves coords)"
    by (rule sum_list_addf)
  finally show ?case by simp
qed simp_all

text \<open>
  Claim C8, as stated: the counter maps a number to 1, a sequence to the sum over its
  elements and anything else to 0. A JSON boolean is neither a number nor a sequence,
  so the claim gives it 0; the code's \<open>isinstance(coords, (int, float))\<close> holds for it
  and the counter returns 1, alone and as a leaf of a coordinate list.
\<close>

theorem count_coordinates_boolean_counterexample:
  "spec_count_coordinates (JBool True) = 0 \<and> count_coordinates (JBool True) = 1
   \<and> spec_count_coordinates (JList [JInt 1, JBool False]) = 1
   \<and> count_coordinates (JList [JInt 1, JBool False]) = 2"
  by simp

text \<open>
  Claim C8, amended: the counter maps a number or a boolean to 1, a list to the sum of
  the counts of its elements, and anything else (null, a string, a mapping) to 0; so it
  is the count of numeric leaves plus the count of boolean leaves. In particular
  \<open>[[1,2],[3,4]]\<close> counts 4, \<open>[1,2]\<close> counts 2, and \<open>[]\<close>, which is also what an
  absent \<open>coordinates\<close> entry defaults to, counts 0.
\<close>

theorem count_coordinates_numbers_and_booleans:
  "count_coordinates (JInt i) = 1 \<and> count_coordinates (JFloat x) = 1
   \<and> count_coordinates (JBool b) = 1
   \<and> count_coordinates (JList coords) = sum_list (map count_coordinates coords)
   \<and> count_coordinates JNull = 0 \<and> count_coordinates (JStr s) = 0
   \<and> count_coordinates (JDict d) = 0
   \<and> count_coordinates v = spec_count_coordinates v + boolean_leaves v
   \<and> count_coordinates (JList [JList [JInt 1, JInt 2], JList [JInt 3, JInt 4]]) = 4
   \<and> count_coordinates (JList [JInt 1, JInt 2]) = 2
   \<and> count_coordinates (JList []) = 0
   \<and> py_get (JDict [(''type'', JStr ''Point'')]) ''coordinates'' (JList []) = Inr (JList [])"
  using count_coordinates_split [of v] by simp

lemma count_coordinates_polygon:
  "count_coordinates (JList [JList [JList [JInt 0, JInt 0], JList [JInt 1, JInt 0],
     JList [JInt 1, JInt 1], JList [JInt 0, JInt 0]]]) = 8"
  by simp

subsection \<open>A document without features\<close>

lemma analyze_no_features:
  assumes "map_of d ''features'' = None"
  shows "analyze r (JDict d) =
     Inr (if d = [] then init_analysis
          else init_analysis
            \<lparr>a_structure := Some
               \<lparr>s_type = (case map_of d ''type'' of None \<Rightarrow> JNull | Some t \<Rightarrow> t),
                s_has_features = False, s_feature_count = 0,
                s_has_bbox = (map_of d ''bbox'' \<noteq> None),
                s_has_crs = (map_of d ''crs'' \<noteq> None),
                s_top_level_keys = map fst d\<rparr>,
             a_coordinate_systems :=
               (case map_of d ''crs'' of None \<Rightarrow> {||} | Some crs \<Rightarrow> {|py_str r crs|})\<rparr>)"
  using assms
  by (auto simp: analyze_def analyze_structure_def analyze_properties_def analyze_geometry_def
      bind_err_def init_analysis_def Let_def split: option.splits)

text \<open>
  Claim C9: when the loaded document is a JSON object without the key \<open>'features'\<close>,
  \<open>analyze\<close> succeeds and leaves \<open>self.analysis['properties']\<close> empty, without
  \<open>'all_properties'\<close>; \<open>generate_markdown\<close> then fails with \<open>KeyError\<close>, which nothing
  catches: no report is written and the run ends in a traceback, not in the reported
  exit of a file that did not load.
\<close>

theorem no_features_key_uncaught_key_error:
  assumes "map_of d ''features'' = None"
  shows "(\<exists>a. analyze r (JDict d) = Inr a \<and> a_properties a = None
            \<and> generate_markdown a = Inl KeyError)
     \<and> main_analyzer r (Some (JDict d)) = Uncaught KeyError
     \<and> main_analyzer r (Some (JDict d)) \<noteq> Not_loaded"
  using analyze_no_features [OF assms, of r]
  by (auto simp: main_analyzer_def generate_markdown_def geometry_section_def
      init_analysis_def bind_err_def split: option.splits)

theorem no_features_key_uncaught_key_error_witness:
  "map_of [(''type'', JStr ''FeatureCollection'')] ''features'' = None
   \<and> main_analyzer (\<lambda>v. ''?'') (Some (JDict [(''type'', JStr ''FeatureCollection'')]))
       = Uncaught KeyError"
  using no_features_key_uncaught_key_error
    [of "[(''type'', JStr ''FeatureCollection'')]" "\<lambda>v. ''?''"]
  by simp

text \<open>
  Outside the claim: a loaded value that is falsy and has no keys at all (\<open>[]\<close>, \<open>null\<close>)
  ends the same way, and a non-empty list fails earlier, in \<open>analyze_structure\<close>, with
  \<open>AttributeError\<close>.
\<close>

lemma other_documents_without_features:
  "main_analyzer r (Some (JList [])) = Uncaught KeyError"
  "main_analyzer r (Some JNull) = Uncaught KeyError"
  "main_analyzer r (Some (JList [JInt 1])) = Uncaught AttributeError"
  "main_analyzer r None = Not_loaded"
  by (simp_all add: main_analyzer_def analyze_def analyze_structure_def analyze_properties_def
      analyze_geometry_def generate_markdown_def init_analysis_def bind_err_def)

subsection \<open>The ranking of the properties\<close>

lemma setdefault_apply_absent:
  "key \<notin> fst ` set d \<Longrightarrow> setdefault_apply key init f d = d @ [(key, f init)]"
  by (induction d) auto

lemma setdefault_apply_present:
  "key \<in> fst ` set d \<Longrightarrow> distinct (map fst d) \<Longrightarrow>
   setdefault_apply key init f d = map (\<lambda>(k, v). if k = key then (k, f v) else (k, v)) d"
proof (induction d)
  case Nil
  then show ?case by simp
next
  case (Cons kv d)
  obtain k v where kv: "kv = (k, v)" by (cases kv)
  show ?case
  proof (cases "k = key")
    case True
    then have "key \<notin> fst ` set d" using Cons.prems(2) kv by auto
    then have "map (\<lambda>(k, v). if k = key then (k, f v) else (k, v)) d = d"
      by (induction d) auto
    with True kv show ?thesis by simp
  next
    case False
    with Cons kv show ?thesis by auto
  qed
qed

lemma set_first_seen: "set (first_seen ks) = set ks"
  by (induction ks) auto

lemma distinct_first_seen: "distinct (first_seen ks)"
  by (induction ks) (auto simp: set_first_seen)

lemma tally_general:
  "distinct (map fst d) \<Longrightarrow>
   foldl (\<lambda>d k. setdefault_apply k 0 Suc d) d ks =
     map (\<lambda>(k, n). (k, n + count_list ks k)) d
     @ map (\<lambda>k. (k, count_list ks k)) (filter (\<lambda>k. k \<notin> fst ` set d) (first_seen ks))"
proof (induction ks arbitrary: d)
  case Nil
  then show ?case by simp
next
  case (Cons k ks)
  show ?case
  proof (cases "k \<in> fst ` set d")
    case True
    let ?d = "map (\<lambda>(k', v). if k' = k then (k', Suc v) else (k', v)) d"
    have d': "setdefault_apply k 0 Suc d = ?d"
      using True Cons.prems by (rule setdefault_apply_present)
    have keys: "map fst ?d = map fst d"
      by (induction d) auto
    then have dist: "distinct (map fst ?d)" and img: "fst ` set ?d = fst ` set d"
      using Cons.prems by (simp_all only: flip: set_map)
    have 1: "map (\<lambda>(k', n). (k', n + count_list ks k')) ?d
        = map (\<lambda>(k', n). (k', n + count_list (k # ks) k')) d"
      by (induction d) auto
    have 2: "filter (\<lambda>x. x \<notin> fst ` set d) (first_seen (k # ks))
        = filter (\<lambda>x. x \<notin> fst ` set d) (first_seen ks)"
      using True by (auto simp: filter_empty_conv intro: filter_cong)
    have 3: "map (\<lambda>x. (x, count_list (k # ks) x)) (filter (\<lambda>x. x \<notin> fst ` set d) (first_seen ks))
        = map (\<lambda>x. (x, count_list ks x)) (filter (\<lambda>x. x \<notin> fst ` set d) (first_seen ks))"
      using True by (intro map_cong) auto
    show ?thesis
      using Cons.IH [OF dist] by (simp only: foldl_Cons d' img 1 2 3)
  next
    case False
    let ?d = "d @ [(k, Suc 0)]"
    have d': "setdefault_apply k 0 Suc d = ?d"
      using False by (rule setdefault_apply_absent)
    have dist: "distinct (map fst ?d)"
      using False Cons.prems by auto
    have 1: "map (\<lambda>(k', n). (k', n + count_list (k # ks) k')) d
        = map (\<lambda>(k', n). (k', n + count_list ks k')) d"
      using False by (intro map_cong) force+
    have 2: "filter (\<lambda>x. x \<notin> fst ` set ?d) (first_seen ks)
        = filter (\<lambda>x. x \<notin> fst ` set d) (filter (\<lambda>x. x \<noteq> k) (first_seen ks))"
      by (auto intro: filter_cong)
    have 4: "count_list (k # ks) k = Suc (count_list ks k)"
      by simp
    show ?thesis
      using Cons.IH [OF dist] False by (simp add: d' 1 2 4 del: count_list.simps) auto
  qed
qed

lemma tally: "foldl (\<lambda>d k. setdefault_apply k 0 Suc d) [] ks = occurrences ks"
  using tally_general [of "[]" ks] by (simp add: occurrences_def)

lemma distinct_occurrences: "distinct (map fst (occurrences ks))"
  by (simp add: occurrences_def comp_def distinct_first_seen)


lemma count_items_all:
  "c_all_properties (count_items r items st)
     = foldl (\<lambda>d k. setdefault_apply k 0 Suc d) (c_all_properties st) (map fst items)"
  by (induction r items st rule: count_items.induct) simp_all

lemma count_features_all:
  "list_all has_properties fs \<Longrightarrow>
   \<exists>st'. count_features r fs st = Inr st'
     \<and> c_all_properties st'
         = foldl (\<lambda>d k. setdefault_apply k 0 Suc d) (c_all_properties st) (property_keys fs)"
proof (induction fs arbitrary: st)
  case Nil
  show ?case by (simp add: property_keys_def)
next
  case (Cons f fs)
  from Cons.prems obtain fd where f: "f = JDict fd"
    by (cases f) (auto simp: has_properties_def)
  from Cons.prems f obtain pd where p: "py_get f ''properties'' (JDict []) = Inr (JDict pd)"
    by (cases "case map_of fd ''properties'' of None \<Rightarrow> JDict [] | Some v \<Rightarrow> v")
      (auto simp: has_properties_def)
  have keys: "property_keys (f # fs) = map fst pd @ property_keys fs"
    using p by (simp add: property_keys_def properties_of_def keys_of_def)
  from Cons.prems have "list_all has_properties fs" by simp
  from Cons.IH [OF this, of "count_items r pd st"] show ?case
    using p by (simp add: bind_err_def keys count_items_all)
qed

lemma dict_of_pairs_general:
  "distinct (map fst (acc @ xs)) \<Longrightarrow>
   foldl (\<lambda>d (k, v). setdefault_apply k v (\<lambda>old. v) d) acc xs = acc @ xs"
proof (induction xs arbitrary: acc)
  case Nil
  show ?case by simp
next
  case (Cons kv xs)
  obtain k v where kv: "kv = (k, v)" by (cases kv)
  have "k \<notin> fst ` set acc" using Cons.prems kv by auto
  then have "setdefault_apply k v (\<lambda>old. v) acc = acc @ [(k, v)]"
    by (rule setdefault_apply_absent)
  moreover have "distinct (map fst ((acc @ [(k, v)]) @ xs))"
    using Cons.prems kv by simp
  ultimately show ?case
    using Cons.IH [of "acc @ [(k, v)]"] kv by simp
qed

lemma dict_of_pairs_distinct:
  "distinct (map fst xs) \<Longrightarrow> dict_of_pairs xs = xs"
  using dict_of_pairs_general [of "[]" xs] by (simp add: dict_of_pairs_def)

lemma sorted_reverse_descending: "sorted (rev (map key (sorted_reverse key xs)))"
  by (simp add: sorted_reverse_def rev_map)

lemma sorted_reverse_stable:
  "filter (\<lambda>x. key x = k) (sorted_reverse key xs) = filter (\<lambda>x. key x = k) xs"
proof -
  have "filter (\<lambda>x. key x = k) (sorted_reverse key xs)
      = rev (filter (\<lambda>x. key x = k) (sort_key key (rev xs)))"
    by (simp add: sorted_reverse_def rev_filter)
  also have "\<dots> = rev (filter (\<lambda>x. key x = k) (rev xs))"
    by (simp only: sort_key_stable)
  also have "\<dots> = filter (\<lambda>x. key x = k) xs"
    by (simp add: rev_filter)
  finally show ?thesis .
qed

lemma sorted_reverse_distinct_keys:
  assumes "distinct (map fst xs)"
  shows "distinct (map fst (sorted_reverse key xs))"
proof -
  have "set (map fst (sorted_reverse key xs)) = set (map fst xs)"
    and "length (map fst (sorted_reverse key xs)) = length (map fst xs)"
    by (simp_all add: sorted_reverse_def)
  with assms show ?thesis
    by (metis card_distinct distinct_card)
qed

lemma analyze_properties_ranked:
  assumes "map_of d ''features'' = Some (JList fs)" and "list_all has_properties fs"
  shows "\<exists>p. analyze_properties r (JDict d) a = Inr (a\<lparr>a_properties := Some p\<rparr>)
     \<and> all_properties p = sorted_reverse snd (occurrences (property_keys fs))"
proof -
  have ne: "d \<noteq> []" using assms(1) by auto
  obtain st where st: "count_features r fs init_counters = Inr st"
    "c_all_properties st = occurrences (property_keys fs)"
    using count_features_all [OF assms(2), of r init_counters]
    by (auto simp: tally init_counters_def)
  let ?p = "\<lparr>all_properties = sorted_reverse snd (occurrences (property_keys fs)),
      property_types = c_property_types st, sample_values = c_property_values st,
      unique_value_counts = map (\<lambda>(k, u). (k, fcard u)) (c_unique_values st)\<rparr>"
  have "dict_of_pairs (sorted_reverse snd (c_all_properties st))
      = sorted_reverse snd (c_all_properties st)"
    by (intro dict_of_pairs_distinct sorted_reverse_distinct_keys)
      (simp add: st(2) distinct_occurrences)
  then have "analyze_properties r (JDict d) a = Inr (a\<lparr>a_properties := Some ?p\<rparr>)"
    using assms(1) ne st by (simp add: analyze_properties_def bind_err_def)
  moreover have "all_properties ?p = sorted_reverse snd (occurrences (property_keys fs))"
    by simp
  ultimately show ?thesis by blast
qed

lemma analyze_geometry_properties:
  "analyze_geometry data a = Inr a' \<Longrightarrow> a_properties a' = a_properties a"
  by (auto simp: analyze_geometry_def bind_err_def split: if_splits sum.splits prod.splits)

lemma property_summary_rows:
  "property_summary p items = Inr rows \<Longrightarrow>
   map (\<lambda>(prop, count, types, unique_count). (prop, count)) rows = items"
  by (induction p items arbitrary: rows rule: property_summary.induct)
    (auto simp: bind_err_def split: sum.splits)

lemma generate_markdown_rows:
  assumes "generate_markdown a = Inr rep" and "a_properties a = Some p"
  shows "map (\<lambda>(prop, count, types, unique_count). (prop, count)) (r_property_summary rep)
     = all_properties p"
  using assms property_summary_rows [of p "all_properties p"]
  by (auto simp: generate_markdown_def bind_err_def split: option.splits sum.splits if_splits)

lemma count_features_has_properties:
  "count_features r fs st = Inr st' \<Longrightarrow> list_all has_properties fs"
proof (induction fs arbitrary: st)
  case Nil
  show ?case by simp
next
  case (Cons f fs)
  from Cons.prems obtain p where p: "py_get f ''properties'' (JDict []) = Inr p"
    by (auto simp: bind_err_def split: sum.splits)
  from Cons.prems p obtain items where items: "py_items p = Inr items"
    by (auto simp: bind_err_def split: sum.splits)
  then have "is_dict p" by (cases p) auto
  moreover from Cons.prems p items have "count_features r fs (count_items r items st) = Inr st'"
    by (simp add: bind_err_def)
  ultimately show ?case
    using Cons.IH p by (simp add: has_properties_def)
qed

lemma analyze_properties_features:
  assumes "map_of d ''features'' = Some (JList fs)"
    and "analyze_properties r (JDict d) a = Inr a'"
  shows "list_all has_properties fs"
proof -
  have "d \<noteq> []" using assms(1) by auto
  with assms obtain st where "count_features r fs init_counters = Inr st"
    by (auto simp: analyze_properties_def bind_err_def split: sum.splits)
  then show ?thesis by (rule count_features_has_properties)
qed

lemma ranking_example:
  "\<exists>a rep. analyze (\<lambda>v. ''?'') (JDict ranking_collection) = Inr a \<and> generate_markdown a = Inr rep
     \<and> map (\<lambda>(prop, count, types, unique_count). (prop, count)) (r_property_summary rep)
        = [(''name'', 2), (''population'', 2), (''id'', 1)]"
  by (simp add: ranking_collection_def ranking_features_def analyze_def analyze_structure_def
      analyze_properties_def analyze_geometry_def generate_markdown_def geometry_section_def
      init_analysis_def init_counters_def bind_err_def dict_of_pairs_def sorted_reverse_def
      dict_getitem_def)

text \<open>
  Claim C7: whenever the analyzer renders a report for a collection with a feature list,
  the rows of the property summary are in descending order of the occurrence count, and
  the rows that share a count \<open>n\<close> are the properties met \<open>n\<close> times in the order of
  their first appearance in the per-feature pass.
\<close>

theorem property_summary_ranked:
  assumes "map_of d ''features'' = Some (JList fs)"
    and "analyze r (JDict d) = Inr a" and "generate_markdown a = Inr rep"
  shows "sorted (rev (map (\<lambda>(prop, count, types, unique_count). count) (r_property_summary rep)))
     \<and> filter (\<lambda>kv. snd kv = n)
         (map (\<lambda>(prop, count, types, unique_count). (prop, count)) (r_property_summary rep))
       = filter (\<lambda>kv. snd kv = n)
           (map (\<lambda>k. (k, count_list (property_keys fs) k)) (first_seen (property_keys fs)))"
proof -
  from assms(2) obtain a1 a2 where a1: "analyze_structure r (JDict d) init_analysis = Inr a1"
    and a2: "analyze_properties r (JDict d) a1 = Inr a2"
    and a3: "analyze_geometry (JDict d) a2 = Inr a"
    by (auto simp: analyze_def bind_err_def split: sum.splits)
  have fs: "list_all has_properties fs"
    using assms(1) a2 by (rule analyze_properties_features)
  obtain p where p: "analyze_properties r (JDict d) a1 = Inr (a1\<lparr>a_properties := Some p\<rparr>)"
    "all_properties p = sorted_reverse snd (occurrences (property_keys fs))"
    using analyze_properties_ranked [OF assms(1) fs, of r a1] by blast
  from a2 p(1) have "a2 = a1\<lparr>a_properties := Some p\<rparr>"
    by simp
  then have "a_properties a2 = Some p"
    by simp
  then have "a_properties a = Some p"
    using analyze_geometry_properties [OF a3] by simp
  from generate_markdown_rows [OF assms(3) this]
  have rows: "map (\<lambda>(prop, count, types, unique_count). (prop, count)) (r_property_summary rep)
      = sorted_reverse snd (occurrences (property_keys fs))"
    by (simp add: p(2))
  have "map (\<lambda>(prop, count, types, unique_count). count) (r_property_summary rep)
      = map snd (map (\<lambda>(prop, count, types, unique_count). (prop, count)) (r_property_summary rep))"
    by (simp add: comp_def case_prod_unfold)
  then show ?thesis
    unfolding rows
    by (simp add: sorted_reverse_descending sorted_reverse_stable occurrences_def)
qed

theorem property_summary_ranked_witness:
  "map_of ranking_collection ''features'' = Some (JList ranking_features)
   \<and> (\<exists>a rep. analyze (\<lambda>v. ''?'') (JDict ranking_collection) = Inr a
        \<and> generate_markdown a = Inr rep
        \<and> map (\<lambda>(prop, count, types, unique_count). (prop, count)) (r_property_summary rep)
            = [(''name'', 2), (''population'', 2), (''id'', 1)]
        \<and> filter (\<lambda>kv. snd kv = 2)
            (map (\<lambda>(prop, count, types, unique_count). (prop, count)) (r_property_summary rep))
          = filter (\<lambda>kv. snd kv = 2)
              (map (\<lambda>k. (k, count_list (property_keys ranking_features) k))
                 (first_seen (property_keys ranking_features))))"
proof -
  have f: "map_of ranking_collection ''features'' = Some (JList ranking_features)"
    by (simp add: ranking_collection_def)
  obtain a rep where a: "analyze (\<lambda>v. ''?'') (JDict ranking_collection) = Inr a"
    and rep: "generate_markdown a = Inr rep"
    and rows: "map (\<lambda>(prop, count, types, unique_count). (prop, count)) (r_property_summary rep)
        = [(''name'', 2), (''population'', 2), (''id'', 1)]"
    using ranking_example by auto
  have ties: "filter (\<lambda>kv. snd kv = 2)
      (map (\<lambda>(prop, count, types, unique_count). (prop, count)) (r_property_summary rep))
    = filter (\<lambda>kv. snd kv = 2)
        (map (\<lambda>k. (k, count_list (property_keys ranking_features) k))
           (first_seen (property_keys ranking_features)))"
    using property_summary_ranked [OF f a rep, of 2] by (rule conjunct2)
  show ?thesis
  proof (intro conjI exI)
    show "map_of ranking_collection ''features'' = Some (JList ranking_features)"
      by (rule f)
    show "analyze (\<lambda>v. ''?'') (JDict ranking_collection) = Inr a"
      by (rule a)
    show "generate_markdown a = Inr rep"
      by (rule rep)
    show "map (\<lambda>(prop, count, types, unique_count). (prop, count)) (r_property_summary rep)
        = [(''name'', 2), (''population'', 2), (''id'', 1)]"
      by (rule rows)
    show "filter (\<lambda>kv. snd kv = 2)
        (map (\<lambda>(prop, count, types, unique_count). (prop, count)) (r_property_summary rep))
      = filter (\<lambda>kv. snd kv = 2)
          (map (\<lambda>k. (k, count_list (property_keys ranking_features) k))
             (first_seen (property_keys ranking_features)))"
      by (rule ties)
  qed
qed

lemma ranking_keys_example:
  "property_keys ranking_features = [''id'', ''name'', ''population'', ''population'', ''name'']"
  "first_seen (property_keys ranking_features) = [''id'', ''name'', ''population'']"
  by (simp_all add: ranking_features_def property_keys_def properties_of_def keys_of_def)

end
